theory Spec2Isabelle
  imports Complex_Main "HOL-Library.Char_ord" "HOL-Library.List_Lexorder"
begin

section \<open>Python values and numpy indexing\<close>

text \<open>
  The exceptions the modelled code can raise. A function that can raise returns
  \<open>error + 'a\<close>, with \<open>Inl\<close> for the exception.
\<close>

datatype error =
    KeyError | IndexError | TypeError | ValueError | ZeroDivisionError
  | UnboundLocalError | FileNotFoundError | ExternalError

text \<open>
  A dictionary key is a Python object. The keys that occur in \<open>quality_analysis.py\<close> are
  integers (\<open>group_id\<close>) and strings (\<open>filename\<close>); an integer never equals a string.
\<close>

datatype pykey = KInt int | KStr string

text \<open>
  \<open>ref_ra, ref_dec = [], []\<close> are Python lists until the first \<open>np.concatenate\<close>,
  which returns an ndarray. A Python list cannot be indexed by an ndarray (TypeError).
\<close>

datatype buf = PyList "real list" | NdArray "real list"

fun buf_items :: "buf \<Rightarrow> real list" where
  "buf_items (PyList xs) = xs"
| "buf_items (NdArray xs) = xs"

text \<open>\<open>a[mask]\<close> with a boolean array: the lengths must agree.\<close>

definition bool_index :: "'a list \<Rightarrow> bool list \<Rightarrow> error + 'a list" where
  "bool_index a m =
     (if length m \<noteq> length a then Inl IndexError
      else Inr (map fst (filter snd (zip a m))))"

text \<open>\<open>a[idx]\<close> with an array of non-negative integers: every index must be in range.\<close>

definition take_idx :: "'a list \<Rightarrow> nat list \<Rightarrow> error + 'a list" where
  "take_idx a idx =
     (if list_all (\<lambda>i. i < length a) idx then Inr (map (\<lambda>i. a ! i) idx)
      else Inl IndexError)"

fun buf_index :: "buf \<Rightarrow> nat list \<Rightarrow> error + real list" where
  "buf_index (PyList xs) idx = Inl TypeError"
| "buf_index (NdArray xs) idx = take_idx xs idx"

text \<open>
  \<open>np.where(np.logical_and(indices >= start_indx, indices < max_indx + start_indx))[0]\<close>:
  the positions in \<open>indices\<close> whose value lies in the window.
\<close>

definition where_window :: "nat list \<Rightarrow> nat \<Rightarrow> nat \<Rightarrow> nat list" where
  "where_window indices start_indx max_indx =
     filter (\<lambda>i. start_indx \<le> indices ! i \<and> indices ! i < max_indx + start_indx)
       [0..<length indices]"

section \<open>The residual extraction engine (quality_analysis.py)\<close>

text \<open>
  \<open>chip.meta['fit_info']\<close>: the key \<open>status\<close> is always there; the keys written by a
  fit are there together or not at all (\<open>fit = None\<close>), and reading one that is missing
  raises KeyError. Index arrays hold non-negative integers.
\<close>

record fit_data =
  fitmask :: "bool list"
  matched_ref_idx :: "nat list"
  matched_input_idx :: "nat list"
  fit_RA :: "real list"
  fit_DEC :: "real list"
  shift :: "real \<times> real"
  rot :: real
  scale :: real
  nmatches :: int
  skew :: real

text \<open>
  A chip of \<open>imglist\<close>: \<open>chip.meta\<close> with its catalog of detector positions, and the
  chip's two coordinate transforms, applied position by position.
\<close>

record chip =
  group_id :: int
  filename :: string
  status :: string
  fit :: "fit_data option"
  catalog :: "(real \<times> real) list"
  det_to_world :: "real \<Rightarrow> real \<Rightarrow> real \<times> real"
  world_to_tanp :: "real \<Rightarrow> real \<Rightarrow> real \<times> real"

text \<open>
  A floating-point result of a statistic: a number, or \<open>nan\<close>, which numpy returns for
  the statistics of an empty array.
\<close>

datatype pyfloat = Float real | NaN

text \<open>
  A value of \<open>group_dict\<close>. \<open>g_type\<close> and the two rms fields hold Python's \<open>None\<close> as
  \<open>None\<close>; the fit parameters are keys added by \<open>update\<close>, absent (\<open>None\<close>) before.
\<close>

record group_rec =
  g_group_id :: int
  g_type :: "string option"
  g_x :: "real list"
  g_y :: "real list"
  g_ref_x :: "real list"
  g_ref_y :: "real list"
  g_rms_x :: "pyfloat option"
  g_rms_y :: "pyfloat option"
  g_xsh :: "real option"
  g_ysh :: "real option"
  g_rot :: "real option"
  g_scale :: "real option"
  g_nmatches :: "int option"
  g_skew :: "real option"

definition new_record :: "int \<Rightarrow> group_rec" where
  "new_record gid =
     \<lparr>g_group_id = gid, g_type = None, g_x = [], g_y = [], g_ref_x = [], g_ref_y = [],
      g_rms_x = None, g_rms_y = None, g_xsh = None, g_ysh = None, g_rot = None,
      g_scale = None, g_nmatches = None, g_skew = None\<rparr>"

text \<open>The local variables of \<open>extract_residuals\<close>; \<open>cum_indx\<close> is unbound at first.\<close>

record loop_state =
  group_dict :: "pykey \<rightharpoonup> group_rec"
  ref_ra :: buf
  ref_dec :: buf
  cum_indx :: "nat option"

definition init_state :: loop_state where
  "init_state = \<lparr>group_dict = Map.empty, ref_ra = PyList [], ref_dec = PyList [],
                 cum_indx = None\<rparr>"

text \<open>
  \<open>get_tangent_positions(chip, indices, start_indx)\<close> returns
  \<open>(img_x, img_y, max_indx, chip_indx)\<close>.
\<close>

definition get_tangent_positions ::
  "chip \<Rightarrow> nat list \<Rightarrow> nat \<Rightarrow> error + (real list \<times> real list \<times> nat \<times> nat list)" where
  "get_tangent_positions c indices start_indx =
     (case fit c of
        None \<Rightarrow> Inl KeyError
      | Some fd \<Rightarrow>
          (let max_indx = length (catalog c);
               chip_indx = where_window indices start_indx max_indx
           in case take_idx (fit_RA fd) chip_indx of
                Inl e \<Rightarrow> Inl e
              | Inr ra \<Rightarrow>
                  (case take_idx (fit_DEC fd) chip_indx of
                     Inl e \<Rightarrow> Inl e
                   | Inr dec \<Rightarrow>
                       (let p = map2 (world_to_tanp c) ra dec
                        in Inr (map fst p, map snd p, max_indx, chip_indx)))))"

text \<open>
  Lines 129--134: the test is \<open>group_id not in group_dict\<close>, on a dictionary whose keys
  are group names.
\<close>

definition init_group :: "loop_state \<Rightarrow> chip \<Rightarrow> loop_state" where
  "init_group s c =
     (if group_dict s (KInt (group_id c)) = None
      then s\<lparr>group_dict := (group_dict s)(KStr (filename c) \<mapsto> new_record (group_id c)),
             cum_indx := Some 0\<rparr>
      else s)"

text \<open>Lines 136--142: a chip whose status is \<open>REFERENCE\<close>.\<close>

definition reference_chip :: "loop_state \<Rightarrow> chip \<Rightarrow> error + loop_state" where
  "reference_chip s c =
     (case group_dict s (KStr (filename c)) of
        None \<Rightarrow> Inl KeyError
      | Some g \<Rightarrow>
          (let w = map (\<lambda>(px, py). det_to_world c px py) (catalog c)
           in Inr (s\<lparr>group_dict :=
                        (group_dict s)(KStr (filename c) \<mapsto> g\<lparr>g_type := Some ''REFERENCE''\<rparr>),
                      ref_ra := NdArray (buf_items (ref_ra s) @ map fst w),
                      ref_dec := NdArray (buf_items (ref_dec s) @ map snd w)\<rparr>)))"

text \<open>
  Lines 144--152: the matched positions of a chip that is not a reference, as
  \<open>(img_x, img_y, ref_x, ref_y, cum_indx)\<close> with the value of \<open>cum_indx\<close> after line 150.
\<close>

definition matched_positions ::
  "loop_state \<Rightarrow> chip \<Rightarrow> error + (real list \<times> real list \<times> real list \<times> real list \<times> nat)" where
  "matched_positions s c =
     (case fit c of
        None \<Rightarrow> Inl KeyError
      | Some fd \<Rightarrow>
     (case bool_index (matched_ref_idx fd) (fitmask fd) of
        Inl e \<Rightarrow> Inl e
      | Inr ref_indx \<Rightarrow>
     (case bool_index (matched_input_idx fd) (fitmask fd) of
        Inl e \<Rightarrow> Inl e
      | Inr img_indx \<Rightarrow>
     (case cum_indx s of
        None \<Rightarrow> Inl UnboundLocalError
      | Some start_indx \<Rightarrow>
     (case get_tangent_positions c img_indx start_indx of
        Inl e \<Rightarrow> Inl e
      | Inr (img_x, img_y, max_indx, chip_mask) \<Rightarrow>
     (case buf_index (ref_ra s) ref_indx of
        Inl e \<Rightarrow> Inl e
      | Inr ra1 \<Rightarrow>
     (case take_idx ra1 chip_mask of
        Inl e \<Rightarrow> Inl e
      | Inr ra \<Rightarrow>
     (case buf_index (ref_dec s) ref_indx of
        Inl e \<Rightarrow> Inl e
      | Inr dec1 \<Rightarrow>
     (case take_idx dec1 chip_mask of
        Inl e \<Rightarrow> Inl e
      | Inr dec \<Rightarrow>
          (let p = map2 (world_to_tanp c) ra dec
           in Inr (img_x, img_y, map fst p, map snd p, start_indx + max_indx)))))))))))"

text \<open>
  Lines 144--166: every chip whose status is not \<open>REFERENCE\<close>. The statistic
  \<open>sigma_clipped_stats(...)[-1]\<close> of the astropy library is the parameter \<open>stat\<close>.
\<close>

definition image_chip ::
  "(real list \<Rightarrow> pyfloat) \<Rightarrow> loop_state \<Rightarrow> chip \<Rightarrow> error + loop_state" where
  "image_chip stat s c =
     (case matched_positions s c of
        Inl e \<Rightarrow> Inl e
      | Inr (img_x, img_y, ref_x, ref_y, cum_indx') \<Rightarrow>
     (case group_dict s (KStr (filename c)) of
        None \<Rightarrow> Inl KeyError
      | Some g \<Rightarrow>
     (case fit c of
        None \<Rightarrow> Inl KeyError
      | Some fd \<Rightarrow>
          (let g' = g\<lparr>g_type := Some ''IMAGE'',
                      g_xsh := Some (fst (shift fd)), g_ysh := Some (snd (shift fd)),
                      g_rot := Some (rot fd), g_scale := Some (scale fd),
                      g_nmatches := Some (nmatches fd), g_skew := Some (skew fd),
                      g_x := g_x g @ img_x, g_y := g_y g @ img_y,
                      g_ref_x := g_ref_x g @ ref_x, g_ref_y := g_ref_y g @ ref_y,
                      g_rms_x := Some (stat (map2 (-) img_x ref_x)),
                      g_rms_y := Some (stat (map2 (-) img_y ref_y))\<rparr>
           in Inr (s\<lparr>group_dict := (group_dict s)(KStr (filename c) \<mapsto> g'),
                      cum_indx := Some cum_indx'\<rparr>)))))"

text \<open>The body of the loop over \<open>imglist\<close>.\<close>

definition extract_step ::
  "(real list \<Rightarrow> pyfloat) \<Rightarrow> loop_state \<Rightarrow> chip \<Rightarrow> error + loop_state" where
  "extract_step stat s c =
     (let s1 = init_group s c
      in if status c = ''REFERENCE'' then reference_chip s1 c else image_chip stat s1 c)"

fun extract_loop ::
  "(real list \<Rightarrow> pyfloat) \<Rightarrow> loop_state \<Rightarrow> chip list \<Rightarrow> error + loop_state" where
  "extract_loop stat s [] = Inr s"
| "extract_loop stat s (c # cs) =
     (case extract_step stat s c of
        Inl e \<Rightarrow> Inl e
      | Inr s' \<Rightarrow> extract_loop stat s' cs)"

definition extract_residuals ::
  "(real list \<Rightarrow> pyfloat) \<Rightarrow> chip list \<Rightarrow> error + (pykey \<rightharpoonup> group_rec)" where
  "extract_residuals stat imglist =
     (case extract_loop stat init_state imglist of
        Inl e \<Rightarrow> Inl e
      | Inr s \<Rightarrow> Inr (group_dict s))"

section \<open>The statistics of numpy and astropy on finite data\<close>

text \<open>
  \<open>np.mean\<close>, \<open>np.std\<close> (population standard deviation) and \<open>np.median\<close> on a
  non-empty array of finite values, over the reals. On the empty array numpy returns
  \<open>nan\<close>, which the reals do not have: these definitions are for non-empty arrays only.
\<close>

definition np_mean :: "real list \<Rightarrow> real" where
  "np_mean xs = sum_list xs / real (length xs)"

definition np_std :: "real list \<Rightarrow> real" where
  "np_std xs = sqrt (sum_list (map (\<lambda>v. (v - np_mean xs)\<^sup>2) xs) / real (length xs))"

definition np_median :: "real list \<Rightarrow> real" where
  "np_median xs =
     (let s = sort xs; n = length s
      in if even n then (s ! (n div 2 - 1) + s ! (n div 2)) / 2 else s ! (n div 2))"

text \<open>
  \<open>sigma_clipped_stats(data)[-1]\<close> with the defaults of astropy (\<open>sigma=3\<close>,
  \<open>maxiters=5\<close>, centre \<open>median\<close>, deviation \<open>std\<close>): values further than
  \<open>sigma\<close> deviations from the median are rejected, until none is or \<open>maxiters\<close>
  rounds have run; the result is the standard deviation of what is left. The empty
  array is returned as it is by the clipping, and its standard deviation is \<open>nan\<close>.
\<close>

fun sigma_clip :: "nat \<Rightarrow> real \<Rightarrow> real list \<Rightarrow> real list" where
  "sigma_clip 0 sigma xs = xs"
| "sigma_clip (Suc k) sigma xs =
     (let c = np_median xs; d = np_std xs;
          ys = filter (\<lambda>v. c - sigma * d \<le> v \<and> v \<le> c + sigma * d) xs
      in if length ys = length xs then xs else sigma_clip k sigma ys)"

definition sigma_clipped_std :: "real list \<Rightarrow> pyfloat" where
  "sigma_clipped_std xs = (if xs = [] then NaN else Float (np_std (sigma_clip 5 3 xs)))"

section \<open>determine_alignment_residuals (quality_analysis.py)\<close>

text \<open>\<open>max\<close> of a list: ValueError on the empty list.\<close>

fun py_max :: "nat list \<Rightarrow> error + nat" where
  "py_max [] = Inl ValueError"
| "py_max (n # ns) = Inr (fold max ns n)"

text \<open>
  The collaborators of \<open>determine_alignment_residuals\<close> outside this repository:
  \<open>sources f\<close> is the list, one entry per SCI chip of file \<open>f\<close>, of the point sources
  that \<open>extract_point_sources\<close> finds; \<open>build_wcscat\<close> builds the chips of a file;
  \<open>align_wcs\<close> is the fit of tweakwcs, which writes the fit information into the chips
  or raises.
\<close>

record ('f, 'src) collaborators =
  sources :: "'f \<Rightarrow> 'src list list"
  build_wcscat :: "'f \<Rightarrow> nat \<Rightarrow> 'src list list \<Rightarrow> chip list"
  align_wcs :: "chip list \<Rightarrow> error + chip list"
  stats :: "real list \<Rightarrow> pyfloat"

text \<open>
  What a call does: whether the fit of \<open>align_wcs\<close> was attempted, and how the call
  ends, with an exception, with \<open>None\<close>, or with the name of the JSON file and the
  residuals written to it.
\<close>

record call_outcome =
  match_attempted :: bool
  returned :: "error + (string \<times> (pykey \<rightharpoonup> group_rec)) option"

definition determine_alignment_residuals ::
  "('f, 'src) collaborators \<Rightarrow> string \<Rightarrow> 'f list \<Rightarrow> call_outcome" where
  "determine_alignment_residuals ext input files =
     (let src_cats = map (sources ext) files;
          num_srcs = map (\<lambda>img_cats. sum_list (map length img_cats)) src_cats
      in case py_max num_srcs of
           Inl e \<Rightarrow> \<lparr>match_attempted = False, returned = Inl e\<rparr>
         | Inr m \<Rightarrow>
             if m \<le> 3 then \<lparr>match_attempted = False, returned = Inr None\<rparr>
             else
               (let imglist = concat (map (\<lambda>(i, f, cat). build_wcscat ext f i cat)
                                (zip [0..<length files] (zip files src_cats)))
                in case align_wcs ext imglist of
                     Inl e \<Rightarrow> \<lparr>match_attempted = True, returned = Inr None\<rparr>
                   | Inr fitted \<Rightarrow>
                       if list_ex (\<lambda>img. status img = ''SUCCESS'') fitted
                       then (case extract_residuals (stats ext) fitted of
                               Inl e \<Rightarrow> \<lparr>match_attempted = True, returned = Inl e\<rparr>
                             | Inr resids \<Rightarrow>
                                 \<lparr>match_attempted = True,
                                  returned = Inr (Some (take 9 input @ ''_astrometry_resids.json'',
                                                        resids))\<rparr>)
                       else \<lparr>match_attempted = True, returned = Inr None\<rparr>))"

section \<open>Python strings\<close>

text \<open>\<open>s.split(sep)\<close> for a separator of one character: always at least one token.\<close>

fun split_on :: "char \<Rightarrow> string \<Rightarrow> string list" where
  "split_on sep [] = [[]]"
| "split_on sep (c # cs) =
     (if c = sep then [] # split_on sep cs
      else (case split_on sep cs of
              [] \<Rightarrow> [[c]]
            | t # ts \<Rightarrow> (c # t) # ts))"

text \<open>\<open>sep.join(tokens)\<close>.\<close>

fun join_with :: "string \<Rightarrow> string list \<Rightarrow> string" where
  "join_with sep [] = []"
| "join_with sep [t] = t"
| "join_with sep (t # ts) = t @ sep @ join_with sep ts"

text \<open>\<open>xs[i]\<close> for \<open>i \<ge> 0\<close>: IndexError out of range.\<close>

definition py_index :: "'a list \<Rightarrow> nat \<Rightarrow> error + 'a" where
  "py_index xs i = (if i < length xs then Inr (xs ! i) else Inl IndexError)"





text \<open>\<open>float(a) / float(b)\<close> on two lengths.\<close>

definition py_fdiv :: "nat \<Rightarrow> nat \<Rightarrow> error + real" where
  "py_fdiv a b = (if b = 0 then Inl ZeroDivisionError else Inr (real a / real b))"

text \<open>
  A message written to the log, by level. At level info, \<open>Listing text names\<close> is a
  text followed by a list of names, and \<open>Matched name n total percent\<close> is the report
  \<open>"{}: {} of {} total sources cross-matched ({}%)"\<close>.
\<close>

datatype log_msg =
    Info string | Warning string | Error string
  | Listing string "string list"
  | Matched string nat nat real

section \<open>compare_num_sources (svm_quality_analysis.py)\<close>








text \<open>
  \<open>prefix = '_'.join(tokens[0:-1])\<close> and
  \<open>cat_names = [prefix + pnt_suffix, prefix + seg_suffix]\<close>.
\<close>

definition cat_prefix :: "string \<Rightarrow> string" where
  "cat_prefix drizzle_file = join_with ''_'' (butlast (split_on CHR ''_'' drizzle_file))"

definition cat_names :: "string \<Rightarrow> string list" where
  "cat_names drizzle_file =
     [cat_prefix drizzle_file @ ''_point-cat.ecsv'',
      cat_prefix drizzle_file @ ''_segment-cat.ecsv'']"



section \<open>compare_photometry (svm_quality_analysis.py)\<close>

text \<open>
  The collaborators of \<open>compare_photometry\<close>, over any type \<open>'tab\<close> of catalog tables.
  \<open>catalogs name\<close> is the table that \<open>ascii.read\<close> returns for a file that exists, so
  that \<open>os.path.isfile\<close> is \<open>catalogs name \<noteq> None\<close> and reading a file that does not exist
  raises. \<open>rename_column\<close>, \<open>colnames\<close> and \<open>table_len\<close> are the table's own methods.
  The functions of \<open>compare_sourcelists\<close> (\<open>csl\<close>) are not in these sources: the
  external cross-matcher \<open>getMatchedLists\<close>, and \<open>mask_missing_values\<close>,
  \<open>extractMatchedLines\<close> (which returns the two rows of values of a column pair by
  pair) and \<open>make_flag_mask\<close>. \<open>mean_of\<close>, \<open>median_of\<close> and \<open>std_of\<close> are \<open>np.mean\<close>,
  \<open>np.median\<close> and \<open>np.std\<close>.
\<close>

record 'tab phot_ops =
  catalogs :: "string \<Rightarrow> 'tab option"
  rename_column :: "'tab \<Rightarrow> string \<Rightarrow> string \<Rightarrow> error + 'tab"
  colnames :: "'tab \<Rightarrow> string list"
  table_len :: "'tab \<Rightarrow> nat"
  getMatchedLists :: "string list \<Rightarrow> string list \<Rightarrow> nat list \<Rightarrow> nat list \<times> nat list"
  mask_missing_values :: "'tab \<Rightarrow> 'tab \<Rightarrow> nat list \<Rightarrow> nat list \<Rightarrow> string set \<Rightarrow> bool list"
  extractMatchedLines ::
    "string \<Rightarrow> 'tab \<Rightarrow> 'tab \<Rightarrow> nat list \<Rightarrow> nat list \<Rightarrow> bool list option
       \<Rightarrow> error + (real \<times> real) list"
  make_flag_mask :: "(real \<times> real) list \<Rightarrow> int \<Rightarrow> bool list \<Rightarrow> bool list"
  mean_of :: "real list \<Rightarrow> real"
  median_of :: "real list \<Rightarrow> real"
  std_of :: "real list \<Rightarrow> real"

definition ascii_read :: "'tab phot_ops \<Rightarrow> string \<Rightarrow> error + 'tab" where
  "ascii_read ops name =
     (case catalogs ops name of None \<Rightarrow> Inl FileNotFoundError | Some t \<Rightarrow> Inr t)"

text \<open>The value of one key \<open>'Stats for Delta_...'\<close> of \<open>summary_dict\<close>.\<close>

record phot_stats =
  mean_difference :: real
  standard_deviation :: real
  median_difference :: real

record summary_dict =
  sm_detector :: string
  sm_filter_name :: string
  sm_stats :: "string \<rightharpoonup> phot_stats"

text \<open>
  Lines 534--539: the loop that checks that both catalogs exist. Its \<open>continue\<close>
  goes on with the next catalog name of this loop.
\<close>

definition check_catalogs :: "'tab phot_ops \<Rightarrow> string \<Rightarrow> string list \<Rightarrow> log_msg list" where
  "check_catalogs ops drizzle_file names =
     concat (map (\<lambda>cat_name.
        if catalogs ops cat_name = None
        then [Warning (''Catalog '' @ cat_name @
                ('' does not exist.  Both the Point and Segment catalogs must exist'' @
                 '' for comparison.'')),
              Warning (''Program skipping comparison of catalogs associated with '' @
                drizzle_file @ ''.'' @ [CHR 0x0A])]
        else []) names)"

text \<open>Lines 542--550: reading the two catalogs and renaming their position columns.\<close>

definition load_catalogs :: "'tab phot_ops \<Rightarrow> string list \<Rightarrow> error + ('tab \<times> 'tab)" where
  "load_catalogs ops names =
     (case ascii_read ops (names ! 0) of
        Inl e \<Rightarrow> Inl e
      | Inr p0 \<Rightarrow>
     (case ascii_read ops (names ! 1) of
        Inl e \<Rightarrow> Inl e
      | Inr s0 \<Rightarrow>
     (case rename_column ops p0 ''X-Center'' ''X'' of
        Inl e \<Rightarrow> Inl e
      | Inr p1 \<Rightarrow>
     (case rename_column ops p1 ''Y-Center'' ''Y'' of
        Inl e \<Rightarrow> Inl e
      | Inr p2 \<Rightarrow>
     (case rename_column ops s0 ''X-Centroid'' ''X'' of
        Inl e \<Rightarrow> Inl e
      | Inr s1 \<Rightarrow>
     (case rename_column ops s1 ''Y-Centroid'' ''Y'' of
        Inl e \<Rightarrow> Inl e
      | Inr s2 \<Rightarrow> Inr (p2, s2)))))))"

text \<open>Lines 570--578: the mask of the matched pairs that are kept.\<close>

definition flag_values_mask ::
  "'tab phot_ops \<Rightarrow> 'tab \<Rightarrow> 'tab \<Rightarrow> nat list \<Rightarrow> nat list \<Rightarrow> error + bool list" where
  "flag_values_mask ops tp ts mp ms =
     (let common_columns = set (colnames ops tp) \<inter> set (colnames ops ts);
          missing_values_mask = mask_missing_values ops tp ts mp ms common_columns
      in case extractMatchedLines ops ''Flags'' tp ts mp ms None of
           Inl e \<Rightarrow> Inl e
         | Inr flag_matching \<Rightarrow> Inr (make_flag_mask ops flag_matching 255 missing_values_mask))"

definition stat_key :: "string \<Rightarrow> string" where
  "stat_key phot_column_name =
     ''Stats for Delta_'' @ phot_column_name @ '' = Point_'' @ phot_column_name @
     '' - Segment_'' @ phot_column_name"

text \<open>
  Lines 585--608, for one magnitude column and its error column: the entry of
  \<open>stat_dict\<close>, and \<open>result_error\<close>, which the caller never reads.
\<close>

definition column_stats ::
  "'tab phot_ops \<Rightarrow> 'tab \<Rightarrow> 'tab \<Rightarrow> nat list \<Rightarrow> nat list \<Rightarrow> bool list \<Rightarrow> string \<Rightarrow> string
     \<Rightarrow> error + (phot_stats \<times> real list)" where
  "column_stats ops tp ts mp ms fmask phot_column_name error_column_name =
     (case extractMatchedLines ops phot_column_name tp ts mp ms (Some fmask) of
        Inl e \<Rightarrow> Inl e
      | Inr matching_phot_rows \<Rightarrow>
          (let delta_phot = map (\<lambda>(p, q). p - q) matching_phot_rows;
               median_delta_phot = median_of ops delta_phot;
               mean_delta_phot = mean_of ops delta_phot;
               std_delta_phot = std_of ops delta_phot
           in case extractMatchedLines ops error_column_name tp ts mp ms (Some fmask) of
                Inl e \<Rightarrow> Inl e
              | Inr matching_error_rows \<Rightarrow>
                  (let result_error = map (\<lambda>(p, q). sqrt (p\<^sup>2 + q\<^sup>2)) matching_error_rows
                   in Inr (\<lparr>mean_difference = mean_delta_phot,
                             standard_deviation = std_delta_phot,
                             median_difference = median_delta_phot\<rparr>, result_error))))"

text \<open>Lines 584--612: the loop over the magnitude columns, updating \<open>summary_dict\<close>.\<close>

fun photometry_columns ::
  "'tab phot_ops \<Rightarrow> 'tab \<Rightarrow> 'tab \<Rightarrow> nat list \<Rightarrow> nat list \<Rightarrow> bool list \<Rightarrow> summary_dict
     \<Rightarrow> (string \<times> string) list \<Rightarrow> error + summary_dict" where
  "photometry_columns ops tp ts mp ms fmask sm [] = Inr sm"
| "photometry_columns ops tp ts mp ms fmask sm ((phot_column_name, error_column_name) # rest) =
     (case column_stats ops tp ts mp ms fmask phot_column_name error_column_name of
        Inl e \<Rightarrow> Inl e
      | Inr (stat, result_error) \<Rightarrow>
          photometry_columns ops tp ts mp ms fmask
            (sm\<lparr>sm_stats := (sm_stats sm)(stat_key phot_column_name \<mapsto> stat)\<rparr>) rest)"

definition phot_columns :: "(string \<times> string) list" where
  "phot_columns = zip [''MagAp1'', ''MagAp2''] [''MagErrAp1'', ''MagErrAp2'']"

text \<open>
  Lines 513--618: one drizzle product. The result is the messages logged, and either
  the exception raised, or \<open>None\<close> when the product is skipped, or the JSON file
  written: its name and the data item of \<open>summary_dict\<close>.

  Modelled from the spec: \<open>HapDiagnostic\<close> (diagnostic_utils) is the result
  serialization, which assembles the statistics handed to it into a record and writes
  it to the named output artifact.
\<close>

definition photometry_product ::
  "'tab phot_ops \<Rightarrow> string \<Rightarrow> log_msg list \<times> (error + (string \<times> summary_dict) option)" where
  "photometry_product ops drizzle_file =
     (let tokens = split_on CHR ''_'' drizzle_file
      in case py_index tokens 4 of
           Inl e \<Rightarrow> ([], Inl e)
         | Inr detector \<Rightarrow>
      (case py_index tokens 5 of
           Inl e \<Rightarrow> ([], Inl e)
         | Inr filter_name \<Rightarrow>
      (case py_index tokens 6 of
           Inl e \<Rightarrow> ([], Inl e)
         | Inr ipppss \<Rightarrow>
      (let summary = \<lparr>sm_detector = detector, sm_filter_name = filter_name,
                       sm_stats = Map.empty\<rparr>;
           json_filename =
             join_with ''_'' [ipppss, detector, ''svm'', filter_name, ''photometry.json''];
           log1 = check_catalogs ops drizzle_file (cat_names drizzle_file)
       in case load_catalogs ops (cat_names drizzle_file) of
            Inl e \<Rightarrow> (log1, Inl e)
          | Inr (tp, ts) \<Rightarrow>
              (let cat_lengths = [table_len ops tp, table_len ops ts];
                   (mp, ms) = getMatchedLists ops (cat_names drizzle_file)
                                [drizzle_file, drizzle_file] cat_lengths
               in if length mp = 0 \<or> length ms = 0
                  then (log1 @
                        [Warning (''Catalog '' @ cat_names drizzle_file ! 0 @
                           '' and Catalog '' @ cat_names drizzle_file ! 1 @
                           '' had no matching sources.''),
                         Warning (''Program skipping comparison of catalogindexs '' @
                           ''associated with '' @ drizzle_file @ ''.'' @ [CHR 0x0A])],
                        Inr None)
                  else
                    (case flag_values_mask ops tp ts mp ms of
                       Inl e \<Rightarrow> (log1, Inl e)
                     | Inr fmask \<Rightarrow>
                         (case photometry_columns ops tp ts mp ms fmask summary phot_columns of
                            Inl e \<Rightarrow> (log1, Inl e)
                          | Inr summary' \<Rightarrow>
                              (log1 @
                               [Info (''Generated photometry comparison for Point - '' @
                                  ''Segment matches sources '' @ json_filename @ ''.'')],
                               Inr (Some (json_filename, summary'))))))))))"

text \<open>
  The loop over \<open>drizzle_list\<close>: the messages logged, the JSON files written, in order,
  and the exception that ended the loop, if one did.
\<close>

fun compare_photometry ::
  "'tab phot_ops \<Rightarrow> string list
     \<Rightarrow> log_msg list \<times> (string \<times> summary_dict) list \<times> error option" where
  "compare_photometry ops [] = ([], [], None)"
| "compare_photometry ops (drizzle_file # rest) =
     (case photometry_product ops drizzle_file of
        (log1, Inl e) \<Rightarrow> (log1, [], Some e)
      | (log1, Inr written) \<Rightarrow>
          (case compare_photometry ops rest of
             (log2, later, r) \<Rightarrow>
               (log1 @ log2,
                (case written of None \<Rightarrow> later | Some w \<Rightarrow> w # later), r)))"

section \<open>compare_ra_dec_crossmatches (svm_quality_analysis.py)\<close>

text \<open>The attributes of \<open>hap_obj\<close> that the function reads.\<close>

record hap_product =
  point_cat_filename :: string
  segment_cat_filename :: string
  drizzle_filename :: string

text \<open>
  The collaborators of \<open>compare_ra_dec_crossmatches\<close>: \<open>slFiles2dataTables\<close> reads the
  two catalogs, \<open>ra_len\<close> is \<open>len(table['RA'])\<close>, \<open>keys\<close> the column names of a table,
  \<open>xmatch\<close> the external cross-matcher \<open>getMatchedLists\<close>. \<open>separation_statistics\<close> is
  the rest of the function (lines 308--375), which masks the matched pairs, computes the
  statistics of the separations with astropy and either writes the JSON file, returning
  its name and contents of type \<open>'json\<close>, or logs that the test could not be performed.
\<close>

record ('tab, 'json) xmatch_ops =
  slFiles2dataTables :: "string list \<Rightarrow> error + ('tab \<times> 'tab)"
  keys :: "'tab \<Rightarrow> string list"
  ra_len :: "'tab \<Rightarrow> error + nat"
  xmatch :: "string list \<Rightarrow> string list \<Rightarrow> nat list \<Rightarrow> nat list \<times> nat list"
  separation_statistics ::
    "'tab \<Rightarrow> 'tab \<Rightarrow> nat list \<Rightarrow> nat list \<Rightarrow> string set
       \<Rightarrow> log_msg list \<times> (error + (string \<times> 'json) option)"

text \<open>
  The messages logged, and either the exception raised, or \<open>None\<close> when no JSON file
  is written, or the JSON file written.
\<close>

definition compare_ra_dec_crossmatches ::
  "('tab, 'json) xmatch_ops \<Rightarrow> hap_product
     \<Rightarrow> log_msg list \<times> (error + (string \<times> 'json) option)" where
  "compare_ra_dec_crossmatches ops hap_obj =
     (let slNames = [point_cat_filename hap_obj, segment_cat_filename hap_obj];
          imgNames = [drizzle_filename hap_obj, drizzle_filename hap_obj]
      in case slFiles2dataTables ops slNames of
           Inl e \<Rightarrow> ([], Inl e)
         | Inr (point_data, seg_data) \<Rightarrow>
      (let columns_to_compare = set (keys ops point_data) \<inter> set (keys ops seg_data);
           log1 = [Listing ''Valid point data columns:   '' (keys ops point_data),
                   Listing ''Valid segment data columns: '' (keys ops seg_data),
                   Info [CHR 0x0A],
                   Info ''Data columns to be compared:''] @
                  map Info (sorted_list_of_set columns_to_compare) @
                  [Info [CHR 0x0A]]
       in case ra_len ops point_data of
            Inl e \<Rightarrow> (log1, Inl e)
          | Inr len0 \<Rightarrow>
       (case ra_len ops seg_data of
            Inl e \<Rightarrow> (log1, Inl e)
          | Inr len1 \<Rightarrow>
       (let slLengths = [len0, len1];
            (matching_lines_ref, matching_lines_img) = xmatch ops slNames imgNames slLengths;
            log2 = log1 @ [Info ''Cross-matching results'']
        in case py_fdiv (length matching_lines_ref) len0 of
             Inl e \<Rightarrow> (log2, Inl e)
           | Inr frac0 \<Rightarrow>
        (let log3 = log2 @ [Matched ''Point sourcelist'' (length matching_lines_ref) len0
                             (100 * frac0)]
         in case py_fdiv (length matching_lines_img) len1 of
              Inl e \<Rightarrow> (log3, Inl e)
            | Inr frac1 \<Rightarrow>
         (let log4 = log3 @ [Matched ''Segment sourcelist'' (length matching_lines_img) len1
                              (100 * frac1)]
          in if length matching_lines_ref = 0 \<or> length matching_lines_img = 0
             then (log4 @
                   [Error (''*** No matching sources were found. Comparisons cannot be '' @
                           ''computed. No json file will be produced.***'')],
                   Inr None)
             else (case separation_statistics ops point_data seg_data matching_lines_ref
                          matching_lines_img columns_to_compare of
                     (log5, r) \<Rightarrow> (log4 @ log5, r))))))))"

section \<open>Reading a result\<close>

text \<open>
  The record that a result of \<open>extract_residuals\<close> holds under a group name, if the
  call returned one.
\<close>

definition record_of :: "error + (pykey \<rightharpoonup> group_rec) \<Rightarrow> string \<Rightarrow> group_rec option" where
  "record_of res name = (case res of Inl e \<Rightarrow> None | Inr d \<Rightarrow> d (KStr name))"

text \<open>
  The state in which the loop of \<open>extract_residuals\<close> ends on a list of chips that
  raises nothing.
\<close>

definition state_after :: "(real list \<Rightarrow> pyfloat) \<Rightarrow> chip list \<Rightarrow> loop_state" where
  "state_after stat imglist =
     (case extract_loop stat init_state imglist of Inl e \<Rightarrow> init_state | Inr s \<Rightarrow> s)"

text \<open>
  What is read off a state of the loop for the group \<open>b.fits\<close>: the offset
  \<open>cum_indx\<close> and the accumulated \<open>x\<close>.
\<close>

definition final_state :: "error + loop_state \<Rightarrow> (nat option \<times> real list option)" where
  "final_state r = (case r of Inl e \<Rightarrow> (None, None)
     | Inr s \<Rightarrow> (cum_indx s, map_option g_x (group_dict s (KStr ''b.fits''))))"

text \<open>
The accumulated \<open>x\<close> and \<open>ref_x\<close> of a record, and its \<open>rms_x\<close>.
\<close>

definition positions_and_rms :: "group_rec \<Rightarrow> real list \<times> real list \<times> pyfloat option" where
  "positions_and_rms g = (g_x g, g_ref_x g, g_rms_x g)"

text \<open>
The four position sequences of a record: \<open>x\<close>, \<open>y\<close>, \<open>ref_x\<close> and \<open>ref_y\<close>.
\<close>

definition positions_of ::
  "group_rec \<Rightarrow> real list \<times> real list \<times> real list \<times> real list" where
  "positions_of g = (g_x g, g_y g, g_ref_x g, g_ref_y g)"

section \<open>Invariants of the loop of extract_residuals\<close>

text \<open>
  The keys of \<open>group_dict\<close> are group names, never integers; and a record that was
  not written by the branch for image chips still has the empty accumulators it was
  created with.
\<close>

definition str_keys :: "loop_state \<Rightarrow> bool" where
  "str_keys s = (\<forall>i. group_dict s (KInt i) = None)"

definition fresh_unless_image :: "loop_state \<Rightarrow> bool" where
  "fresh_unless_image s =
     (\<forall>k g. group_dict s k = Some g \<longrightarrow> g_type g \<noteq> Some ''IMAGE'' \<longrightarrow>
        g_x g = [] \<and> g_y g = [] \<and> g_ref_x g = [] \<and> g_ref_y g = [])"

section \<open>Chips that keep no match\<close>

text \<open>
  A chip that is not a reference, comes with fit information, and for which no matched
  index is left by the fit's mask, \<open>fitinfo['matched_ref_idx'][img_mask]\<close> and
  \<open>fitinfo['matched_input_idx'][img_mask]\<close> being empty.
\<close>

definition no_match_chip :: "chip \<Rightarrow> bool" where
  "no_match_chip c =
     (status c \<noteq> ''REFERENCE'' \<and>
      (case fit c of
         None \<Rightarrow> False
       | Some fd \<Rightarrow> bool_index (matched_ref_idx fd) (fitmask fd) = Inr [] \<and>
                   bool_index (matched_input_idx fd) (fitmask fd) = Inr []))"

section \<open>The counts that compare_num_sources should record\<close>








section \<open>The statistics that compare_photometry should retain\<close>





section \<open>Sample inputs\<close>

text \<open>
  Chips whose two transforms are the identity. \<open>ref_A\<close> and \<open>img_B\<close> are the two
  groups of the scenario of the specification, with group B as one chip;
  \<open>img_nomatch\<close> is \<open>img_B\<close> with a fit mask that keeps no match, and \<open>img_C\<close>
  is a chip of another exposure.
\<close>

definition ident_chip :: "int \<Rightarrow> string \<Rightarrow> string \<Rightarrow> fit_data option \<Rightarrow> (real \<times> real) list \<Rightarrow> chip" where
  "ident_chip gid name st fd cat =
     \<lparr>group_id = gid, filename = name, status = st, fit = fd, catalog = cat,
      det_to_world = Pair, world_to_tanp = Pair\<rparr>"

definition ref_A :: chip where
  "ref_A = ident_chip 0 ''a.fits'' ''REFERENCE'' None [(10, 20), (10.001, 20.001)]"

definition fit_B :: fit_data where
  "fit_B = \<lparr>fitmask = [True, True], matched_ref_idx = [0, 1], matched_input_idx = [0, 1],
            fit_RA = [10.5, 10.501], fit_DEC = [19.7, 19.701], shift = (0.5, -0.3),
            rot = 0, scale = 1, nmatches = 2, skew = 0\<rparr>"

definition img_B :: chip where
  "img_B = ident_chip 1 ''b.fits'' ''SUCCESS'' (Some fit_B) [(1, 1), (2, 2)]"

definition fit_nomatch :: fit_data where
  "fit_nomatch = fit_B\<lparr>fitmask := [False, False], nmatches := 0\<rparr>"

definition img_nomatch :: chip where
  "img_nomatch = ident_chip 1 ''b.fits'' ''SUCCESS'' (Some fit_nomatch) [(1, 1), (2, 2)]"

definition img_C :: chip where
  "img_C = ident_chip 2 ''c.fits'' ''SUCCESS'' (Some fit_B) [(1, 1), (2, 2)]"

text \<open>
  Group B of the scenario as an exposure of two chips with one source each, which share
  the fit of their group.
\<close>

definition half_B1 :: chip where
  "half_B1 = ident_chip 1 ''b.fits'' ''SUCCESS'' (Some fit_B) [(1, 1)]"

definition half_B2 :: chip where
  "half_B2 = ident_chip 1 ''b.fits'' ''SUCCESS'' (Some fit_B) [(2, 2)]"

text \<open>
  An exposure \<open>b.fits\<close> with two SCI chips of two sources each, which share the fit
  information of their group: four matches, to the four sources of the reference
  \<open>ref_four\<close>.
\<close>

definition ref_four :: chip where
  "ref_four = ident_chip 0 ''a.fits'' ''REFERENCE'' None [(1, 5), (2, 6), (3, 7), (4, 8)]"

definition fit_two_chips :: fit_data where
  "fit_two_chips =
     \<lparr>fitmask = [True, True, True, True], matched_ref_idx = [0, 1, 2, 3],
      matched_input_idx = [0, 1, 2, 3], fit_RA = [1, 2, 3, 4], fit_DEC = [5, 6, 7, 8],
      shift = (0, 0), rot = 0, scale = 1, nmatches = 4, skew = 0\<rparr>"

definition sci1 :: chip where
  "sci1 = ident_chip 1 ''b.fits'' ''SUCCESS'' (Some fit_two_chips) [(0, 0), (1, 1)]"

definition sci2 :: chip where
  "sci2 = ident_chip 1 ''b.fits'' ''SUCCESS'' (Some fit_two_chips) [(2, 2), (3, 3)]"

text \<open>
  Two chips of \<open>b.fits\<close>, each with a fit of its own: the residual in \<open>x\<close> of the
  match of \<open>first_chip\<close> is \<open>10 - 10\<close>, that of \<open>second_chip\<close> is
  \<open>13 - 11\<close>.
\<close>

definition ref_two :: chip where
  "ref_two = ident_chip 0 ''a.fits'' ''REFERENCE'' None [(10, 20), (11, 21)]"

definition first_chip :: chip where
  "first_chip = ident_chip 1 ''b.fits'' ''SUCCESS''
     (Some \<lparr>fitmask = [True], matched_ref_idx = [0], matched_input_idx = [0],
            fit_RA = [10], fit_DEC = [20], shift = (0, 0), rot = 0, scale = 1,
            nmatches = 1, skew = 0\<rparr>) [(0, 0)]"

definition second_chip :: chip where
  "second_chip = ident_chip 1 ''b.fits'' ''SUCCESS''
     (Some \<lparr>fitmask = [True], matched_ref_idx = [1], matched_input_idx = [1],
            fit_RA = [13], fit_DEC = [23], shift = (0, 0), rot = 0, scale = 1,
            nmatches = 1, skew = 0\<rparr>) [(0, 0), (1, 1)]"

text \<open>
  Collaborators of \<open>determine_alignment_residuals\<close> that find three sources in every
  file, and four.
\<close>

definition few_sources :: "(string, unit) collaborators" where
  "few_sources = \<lparr>sources = (\<lambda>f. [[(), ()], [()]]), build_wcscat = (\<lambda>f i cat. []),
                   align_wcs = Inr, stats = sigma_clipped_std\<rparr>"

definition many_sources :: "(string, unit) collaborators" where
  "many_sources = \<lparr>sources = (\<lambda>f. [[(), ()], [(), ()]]), build_wcscat = (\<lambda>f i cat. []),
                    align_wcs = Inr, stats = sigma_clipped_std\<rparr>"







text \<open>
  Collaborators of \<open>compare_photometry\<close> on tables that are lists of named columns.
  The point catalog of the filter \<open>f110w\<close> is missing; both catalogs of \<open>f160w\<close>
  exist. \<open>other_errors\<close> has other values in the error columns.
\<close>

type_synonym table = "(string \<times> real list) list"

definition table_rename :: "table \<Rightarrow> string \<Rightarrow> string \<Rightarrow> error + table" where
  "table_rename t old new =
     (if old \<in> set (map fst t)
      then Inr (map (\<lambda>(n, col). (if n = old then new else n, col)) t)
      else Inl KeyError)"

definition table_rows :: "table \<Rightarrow> nat" where
  "table_rows t = (case t of [] \<Rightarrow> 0 | (n, col) # rest \<Rightarrow> length col)"

definition gather ::
  "string \<Rightarrow> table \<Rightarrow> table \<Rightarrow> nat list \<Rightarrow> nat list \<Rightarrow> bool list option
     \<Rightarrow> error + (real \<times> real) list" where
  "gather name tp ts mp ms m =
     (case map_of tp name of
        None \<Rightarrow> Inl KeyError
      | Some a \<Rightarrow>
          (case map_of ts name of
             None \<Rightarrow> Inl KeyError
           | Some b \<Rightarrow>
               (let pairs = zip (map (\<lambda>i. a ! i) mp) (map (\<lambda>i. b ! i) ms)
                in Inr (case m of None \<Rightarrow> pairs
                        | Some keep \<Rightarrow> map fst (filter snd (zip pairs keep))))))"

definition good_flags :: "(real \<times> real) list \<Rightarrow> int \<Rightarrow> bool list \<Rightarrow> bool list" where
  "good_flags rows good missing =
     map (\<lambda>((a, b), m). m \<and> a = real_of_int good \<and> b = real_of_int good) (zip rows missing)"

definition point_table :: table where
  "point_table =
     [(''X-Center'', [1, 2, 3]), (''Y-Center'', [1, 2, 3]), (''Flags'', [255, 255, 254]),
      (''MagAp1'', [21, 23, 25]), (''MagErrAp1'', [3, 3, 3]),
      (''MagAp2'', [22, 22, 22]), (''MagErrAp2'', [0, 0, 0])]"

definition segment_table :: table where
  "segment_table =
     [(''X-Centroid'', [1, 2, 3]), (''Y-Centroid'', [1, 2, 3]), (''Flags'', [255, 255, 255]),
      (''MagAp1'', [20, 20, 20]), (''MagErrAp1'', [4, 4, 4]),
      (''MagAp2'', [21, 21, 21]), (''MagErrAp2'', [0, 0, 0])]"

definition table_disk :: "string \<Rightarrow> table option" where
  "table_disk name =
     (if name = ''hst_11665_06_wfc3_ir_f160w_ib4606_point-cat.ecsv'' then Some point_table
      else if name = ''hst_11665_06_wfc3_ir_f160w_ib4606_segment-cat.ecsv''
      then Some segment_table
      else if name = ''hst_11665_06_wfc3_ir_f110w_ib4606_segment-cat.ecsv''
      then Some segment_table
      else None)"

definition table_ops :: "table phot_ops" where
  "table_ops =
     \<lparr>catalogs = table_disk, rename_column = table_rename, colnames = map fst,
      table_len = table_rows,
      getMatchedLists = (\<lambda>names images lens. ([0, 1, 2], [0, 1, 2])),
      mask_missing_values = (\<lambda>tp ts mp ms cols. map (\<lambda>i. True) mp),
      extractMatchedLines = gather, make_flag_mask = good_flags,
      mean_of = np_mean, median_of = np_median, std_of = np_std\<rparr>"


text \<open>
  Collaborators of \<open>compare_ra_dec_crossmatches\<close> for a point catalog with no rows, a
  segment catalog with five, and no cross-match.
\<close>

definition empty_point_ops :: "(nat, unit) xmatch_ops" where
  "empty_point_ops =
     \<lparr>slFiles2dataTables = (\<lambda>names. Inr (0, 5)), keys = (\<lambda>t. []), ra_len = Inr,
      xmatch = (\<lambda>names images lens. ([], [])),
      separation_statistics = (\<lambda>p s mr mi cols. ([], Inr None))\<rparr>"

definition filter_product :: hap_product where
  "filter_product =
     \<lparr>point_cat_filename = ''hst_11665_06_wfc3_ir_f160w_ib4606_point-cat.ecsv'',
      segment_cat_filename = ''hst_11665_06_wfc3_ir_f160w_ib4606_segment-cat.ecsv'',
      drizzle_filename = ''hst_11665_06_wfc3_ir_f160w_ib4606_drz.fits''\<rparr>"

section \<open>The loop of extract_residuals\<close>

lemmas engine_defs = extract_residuals_def extract_step_def init_group_def reference_chip_def
  image_chip_def matched_positions_def get_tangent_positions_def bool_index_def take_idx_def
  where_window_def new_record_def init_state_def

lemmas sample_defs = ref_A_def img_B_def fit_B_def ident_chip_def img_nomatch_def fit_nomatch_def
  img_C_def

lemmas two_chip_defs = ref_two_def first_chip_def second_chip_def ident_chip_def

text \<open>
  Since no key of \<open>group_dict\<close> is an integer, the test of line 129 succeeds for
  every chip: the record of the chip's group is created anew and \<open>cum_indx\<close> is set
  to \<open>0\<close>.
\<close>

lemma str_keys_init: "str_keys init_state"
  by (simp add: str_keys_def init_state_def)

lemma fresh_init: "fresh_unless_image init_state"
  by (simp add: fresh_unless_image_def init_state_def)

lemma init_group_str_keys:
  "str_keys s \<Longrightarrow>
   init_group s c = s\<lparr>group_dict := (group_dict s)(KStr (filename c) \<mapsto> new_record (group_id c)),
                       cum_indx := Some 0\<rparr>"
  by (simp add: init_group_def str_keys_def)

lemma reference_chip_Inr:
  "reference_chip s c = Inr s' \<Longrightarrow>
   \<exists>g. group_dict s (KStr (filename c)) = Some g \<and>
       group_dict s' = (group_dict s)(KStr (filename c) \<mapsto> g\<lparr>g_type := Some ''REFERENCE''\<rparr>) \<and>
       (\<exists>ra. ref_ra s' = NdArray ra) \<and> (\<exists>dec. ref_dec s' = NdArray dec)"
  by (auto simp: reference_chip_def Let_def split: option.splits)

lemma image_chip_Inr:
  "image_chip stat s c = Inr s' \<Longrightarrow>
   \<exists>img_x img_y ref_x ref_y ci g fd.
     matched_positions s c = Inr (img_x, img_y, ref_x, ref_y, ci) \<and>
     group_dict s (KStr (filename c)) = Some g \<and> fit c = Some fd \<and>
     s' = s\<lparr>group_dict := (group_dict s)(KStr (filename c) \<mapsto>
               g\<lparr>g_type := Some ''IMAGE'',
                 g_xsh := Some (fst (shift fd)), g_ysh := Some (snd (shift fd)),
                 g_rot := Some (rot fd), g_scale := Some (scale fd),
                 g_nmatches := Some (nmatches fd), g_skew := Some (skew fd),
                 g_x := g_x g @ img_x, g_y := g_y g @ img_y,
                 g_ref_x := g_ref_x g @ ref_x, g_ref_y := g_ref_y g @ ref_y,
                 g_rms_x := Some (stat (map2 (-) img_x ref_x)),
                 g_rms_y := Some (stat (map2 (-) img_y ref_y))\<rparr>),
            cum_indx := Some ci\<rparr>"
  by (auto simp: image_chip_def Let_def split: sum.splits option.splits prod.splits)

lemma matched_positions_ref_bufs:
  "matched_positions s c = Inr r \<Longrightarrow> \<exists>ra dec. ref_ra s = NdArray ra \<and> ref_dec s = NdArray dec"
  apply (cases "ref_ra s"; cases "ref_dec s")
  by (auto simp: matched_positions_def Let_def split: sum.splits option.splits prod.splits)

lemma extract_step_str_keys:
  "extract_step stat s c = Inr s' \<Longrightarrow> str_keys s \<Longrightarrow> str_keys s'"
  by (auto simp: extract_step_def Let_def init_group_str_keys str_keys_def
           dest!: reference_chip_Inr image_chip_Inr split: if_splits)

lemma extract_step_fresh:
  "extract_step stat s c = Inr s' \<Longrightarrow> str_keys s \<Longrightarrow> fresh_unless_image s \<Longrightarrow>
   fresh_unless_image s'"
  by (auto simp: extract_step_def Let_def init_group_str_keys fresh_unless_image_def
           new_record_def
           dest!: reference_chip_Inr image_chip_Inr split: if_splits)

lemma extract_loop_inv:
  "extract_loop stat s cs = Inr s' \<Longrightarrow> str_keys s \<Longrightarrow> fresh_unless_image s \<Longrightarrow>
   str_keys s' \<and> fresh_unless_image s'"
proof (induction cs arbitrary: s)
  case Nil
  then show ?case by simp
next
  case (Cons c cs)
  then show ?case
    by (auto split: sum.splits dest: extract_step_str_keys extract_step_fresh)
qed

lemma extract_loop_append:
  "extract_loop stat s (cs @ ds) =
     (case extract_loop stat s cs of Inl e \<Rightarrow> Inl e | Inr s' \<Rightarrow> extract_loop stat s' ds)"
  by (induction cs arbitrary: s) (auto split: sum.splits)

lemma ref_seen:
  "extract_loop stat s cs = Inr s' \<Longrightarrow>
   list_ex (\<lambda>r. status r = ''REFERENCE'') cs \<or> (\<exists>ra dec. ref_ra s = NdArray ra \<and> ref_dec s = NdArray dec) \<Longrightarrow>
   \<exists>ra dec. ref_ra s' = NdArray ra \<and> ref_dec s' = NdArray dec"
proof (induction cs arbitrary: s)
  case Nil
  then show ?case by simp
next
  case (Cons c cs)
  from Cons.prems(1) obtain s1 where s1: "extract_step stat s c = Inr s1"
    and rest: "extract_loop stat s1 cs = Inr s'"
    by (auto split: sum.splits)
  have "\<exists>ra dec. ref_ra s1 = NdArray ra \<and> ref_dec s1 = NdArray dec"
  proof (cases "status c = ''REFERENCE''")
    case True
    with s1 show ?thesis
      by (auto simp: extract_step_def Let_def dest!: reference_chip_Inr)
  next
    case False
    with s1 have "image_chip stat (init_group s c) c = Inr s1"
      by (simp add: extract_step_def Let_def)
    then obtain r where "matched_positions (init_group s c) c = Inr r"
      and "ref_ra s1 = ref_ra (init_group s c)" and "ref_dec s1 = ref_dec (init_group s c)"
      by (auto dest!: image_chip_Inr)
    then show ?thesis
      by (auto dest: matched_positions_ref_bufs)
  qed
  with Cons.IH [OF rest] show ?case by blast
qed

lemma upt4: "[0..<4] = [0, 1, 2, 3]" by (simp add: upt_rec)

text \<open>
  A chip that keeps no match leaves a record with empty position sequences, and raises
  nothing once \<open>ref_ra\<close> and \<open>ref_dec\<close> are arrays; a chip of another group leaves
  the record of a group as it is.
\<close>

lemma no_match_chipD:
  "no_match_chip c \<Longrightarrow>
   status c \<noteq> ''REFERENCE'' \<and>
   (\<exists>fd. fit c = Some fd \<and> bool_index (matched_ref_idx fd) (fitmask fd) = Inr [] \<and>
         bool_index (matched_input_idx fd) (fitmask fd) = Inr [])"
  by (auto simp: no_match_chip_def split: option.splits)

lemma matched_positions_no_match:
  "matched_positions s c = Inr (img_x, img_y, ref_x, ref_y, ci) \<Longrightarrow> fit c = Some fd \<Longrightarrow>
   bool_index (matched_ref_idx fd) (fitmask fd) = Inr [] \<Longrightarrow>
   bool_index (matched_input_idx fd) (fitmask fd) = Inr [] \<Longrightarrow>
   img_x = [] \<and> img_y = [] \<and> ref_x = [] \<and> ref_y = []"
  by (cases "ref_ra s"; cases "ref_dec s")
    (auto simp: matched_positions_def get_tangent_positions_def where_window_def take_idx_def
       Let_def split: sum.splits option.splits prod.splits if_splits)

lemma extract_step_no_match:
  assumes nm: "no_match_chip c" and keys: "str_keys s"
    and step: "extract_step stat s c = Inr s'"
  shows "\<exists>g. group_dict s' (KStr (filename c)) = Some g \<and> g_type g = Some ''IMAGE'' \<and>
             g_x g = [] \<and> g_y g = [] \<and> g_ref_x g = [] \<and> g_ref_y g = [] \<and>
             g_rms_x g = Some (stat []) \<and> g_rms_y g = Some (stat [])"
proof -
  from no_match_chipD [OF nm] obtain fd where c: "status c \<noteq> ''REFERENCE''" "fit c = Some fd"
    "bool_index (matched_ref_idx fd) (fitmask fd) = Inr []"
    "bool_index (matched_input_idx fd) (fitmask fd) = Inr []" by blast
  define s1 where "s1 = init_group s c"
  have s1: "group_dict s1 (KStr (filename c)) = Some (new_record (group_id c))"
    by (simp add: s1_def init_group_str_keys [OF keys])
  from step c(1) have "image_chip stat s1 c = Inr s'"
    by (simp add: extract_step_def Let_def s1_def)
  from image_chip_Inr [OF this] show ?thesis
  proof (elim exE conjE)
    fix img_x img_y ref_x ref_y ci g fd'
    assume mp: "matched_positions s1 c = Inr (img_x, img_y, ref_x, ref_y, ci)"
      and g: "group_dict s1 (KStr (filename c)) = Some g"
      and s': "s' = s1\<lparr>group_dict := (group_dict s1)(KStr (filename c) \<mapsto>
               g\<lparr>g_type := Some ''IMAGE'',
                 g_xsh := Some (fst (shift fd')), g_ysh := Some (snd (shift fd')),
                 g_rot := Some (rot fd'), g_scale := Some (scale fd'),
                 g_nmatches := Some (nmatches fd'), g_skew := Some (skew fd'),
                 g_x := g_x g @ img_x, g_y := g_y g @ img_y,
                 g_ref_x := g_ref_x g @ ref_x, g_ref_y := g_ref_y g @ ref_y,
                 g_rms_x := Some (stat (map2 (-) img_x ref_x)),
                 g_rms_y := Some (stat (map2 (-) img_y ref_y))\<rparr>),
            cum_indx := Some ci\<rparr>"
    from matched_positions_no_match [OF mp c(2) c(3) c(4)]
    have e: "img_x = []" "img_y = []" "ref_x = []" "ref_y = []" by simp_all
    from g s1 have "g = new_record (group_id c)" by simp
    with s' e show ?thesis by (simp add: new_record_def)
  qed
qed

lemma extract_step_other_group:
  "extract_step stat s c = Inr s' \<Longrightarrow> str_keys s \<Longrightarrow> filename c \<noteq> name \<Longrightarrow>
   group_dict s' (KStr name) = group_dict s (KStr name)"
  by (auto simp: extract_step_def Let_def init_group_str_keys
           dest!: reference_chip_Inr image_chip_Inr split: if_splits)

lemma extract_loop_other_groups:
  "extract_loop stat s cs = Inr s' \<Longrightarrow> str_keys s \<Longrightarrow>
   list_all (\<lambda>r. filename r \<noteq> name) cs \<Longrightarrow>
   group_dict s' (KStr name) = group_dict s (KStr name)"
proof (induction cs arbitrary: s)
  case Nil
  then show ?case by simp
next
  case (Cons c cs)
  from Cons.prems(1) obtain s1 where s1: "extract_step stat s c = Inr s1"
    and rest: "extract_loop stat s1 cs = Inr s'"
    by (auto split: sum.splits)
  from Cons.prems(3) have ne: "filename c \<noteq> name" and later: "list_all (\<lambda>r. filename r \<noteq> name) cs"
    by simp_all
  from Cons.IH [OF rest extract_step_str_keys [OF s1 Cons.prems(2)] later]
    extract_step_other_group [OF s1 Cons.prems(2) ne]
  show ?case by simp
qed

lemma extract_step_no_match_returns:
  assumes nm: "no_match_chip c" and keys: "str_keys s"
    and bufs: "ref_ra s = NdArray ra" "ref_dec s = NdArray dec"
  shows "\<exists>s'. extract_step stat s c = Inr s'"
proof -
  from no_match_chipD [OF nm] obtain fd where c: "status c \<noteq> ''REFERENCE''" "fit c = Some fd"
    "bool_index (matched_ref_idx fd) (fitmask fd) = Inr []"
    "bool_index (matched_input_idx fd) (fitmask fd) = Inr []" by blast
  show ?thesis
    using c bufs
    by (simp add: extract_step_def Let_def init_group_str_keys [OF keys] image_chip_def
          matched_positions_def get_tangent_positions_def take_idx_def where_window_def)
qed

text \<open>
  Claim C1 says that the record of a group and the offset \<open>cum_indx\<close> are set up on
  the first chip of the group only, and that later chips of the group append to the
  record while the offset goes on. On the two chips of \<open>b.fits\<close> the code does
  otherwise: after the second chip the offset is \<open>2\<close> and the accumulated \<open>x\<close> is
  \<open>[1, 2]\<close>, as after the first, where the claim gives \<open>4\<close> and
  \<open>[1, 2, 3, 4]\<close>.
\<close>

theorem record_reset_on_every_chip:
  "final_state (extract_loop stat init_state [ref_four, sci1]) = (Some 2, Some [1, 2]) \<and>
   final_state (extract_loop stat init_state [ref_four, sci1, sci2]) = (Some 2, Some [1, 2])"
  by (simp add: final_state_def engine_defs ref_four_def sci1_def sci2_def fit_two_chips_def
        ident_chip_def upt4)

text \<open>
  Claim C2, as amended: after the engine has processed a chip that is not a reference,
  \<open>rms_x\<close> and \<open>rms_y\<close> of the chip's group are the sigma-clipped standard deviation
  of the residuals, image position minus reference position, of the matched positions of
  that chip.
\<close>

theorem rms_of_latest_chip:
  assumes "extract_loop stat init_state cs = Inr s"
    and "status c \<noteq> ''REFERENCE''"
    and "extract_loop stat init_state (cs @ [c]) = Inr s'"
  shows "\<exists>img_x img_y ref_x ref_y ci g.
           matched_positions (init_group s c) c = Inr (img_x, img_y, ref_x, ref_y, ci) \<and>
           group_dict s' (KStr (filename c)) = Some g \<and>
           g_rms_x g = Some (stat (map2 (-) img_x ref_x)) \<and>
           g_rms_y g = Some (stat (map2 (-) img_y ref_y))"
proof -
  from assms have "image_chip stat (init_group s c) c = Inr s'"
    by (simp add: extract_loop_append extract_step_def Let_def split: sum.splits)
  from image_chip_Inr [OF this] show ?thesis by auto
qed

text \<open>
The theorem of claim C2 on the reference \<open>ref_two\<close> followed by \<open>first_chip\<close>.
\<close>

theorem rms_of_latest_chip_witness:
  "extract_loop sigma_clipped_std init_state [ref_two] =
     Inr (state_after sigma_clipped_std [ref_two]) \<and>
   status first_chip \<noteq> ''REFERENCE'' \<and>
   extract_loop sigma_clipped_std init_state ([ref_two] @ [first_chip]) =
     Inr (state_after sigma_clipped_std [ref_two, first_chip]) \<and>
   (\<exists>img_x img_y ref_x ref_y ci g.
      matched_positions (init_group (state_after sigma_clipped_std [ref_two]) first_chip)
        first_chip = Inr (img_x, img_y, ref_x, ref_y, ci) \<and>
      group_dict (state_after sigma_clipped_std [ref_two, first_chip]) (KStr (filename first_chip))
        = Some g \<and>
      g_rms_x g = Some (sigma_clipped_std (map2 (-) img_x ref_x)) \<and>
      g_rms_y g = Some (sigma_clipped_std (map2 (-) img_y ref_y)))"
proof -
  have h1: "extract_loop sigma_clipped_std init_state [ref_two] =
     Inr (state_after sigma_clipped_std [ref_two])"
    by (simp add: state_after_def engine_defs two_chip_defs)
  have h2: "status first_chip \<noteq> ''REFERENCE''"
    by (simp add: two_chip_defs)
  have h3: "extract_loop sigma_clipped_std init_state ([ref_two] @ [first_chip]) =
     Inr (state_after sigma_clipped_std [ref_two, first_chip])"
    by (simp add: state_after_def engine_defs two_chip_defs)
  from rms_of_latest_chip [OF h1 h2 h3] h1 h2 h3 show ?thesis by blast
qed

lemma std_0_2: "sigma_clipped_std [0, 2] = Float 1"
  by (simp add: sigma_clipped_std_def np_std_def np_mean_def np_median_def eval_nat_numeral)

lemma std_2: "sigma_clipped_std [2] = Float 0"
  by (simp add: sigma_clipped_std_def np_std_def np_mean_def np_median_def eval_nat_numeral)

lemma std_0: "sigma_clipped_std [0] = Float 0"
  by (simp add: sigma_clipped_std_def np_std_def np_mean_def np_median_def eval_nat_numeral)

text \<open>
  Claim C2 as stated fails: after both chips of \<open>b.fits\<close>, the first with the
  residual \<open>10 - 10\<close> and the second with \<open>13 - 11\<close>, \<open>rms_x\<close> is \<open>0\<close>, the
  deviation of the residual of the second chip alone; over the residuals of both chips
  it is \<open>1\<close>.
\<close>

theorem rms_not_over_accumulation:
  "map_option positions_and_rms (record_of (extract_residuals sigma_clipped_std [ref_two, first_chip]) ''b.fits'')
     = Some ([10], [10], Some (Float 0)) \<and>
   map_option positions_and_rms
     (record_of (extract_residuals sigma_clipped_std [ref_two, first_chip, second_chip]) ''b.fits'')
     = Some ([13], [11], Some (Float 0)) \<and>
   sigma_clipped_std [10 - 10, 13 - 11] = Float 1"
  by (simp add: record_of_def positions_and_rms_def engine_defs ref_two_def first_chip_def second_chip_def
        ident_chip_def std_0_2 std_2 std_0)

text \<open>
  Claim C4, as amended: in every result, a record of type \<open>REFERENCE\<close> has empty
  \<open>x\<close>, \<open>y\<close>, \<open>ref_x\<close> and \<open>ref_y\<close>; and when the last chip of a group in
  \<open>imglist\<close> keeps no match, the record of the group has the type \<open>IMAGE\<close> and
  empty position sequences, and its \<open>rms_x\<close> and \<open>rms_y\<close> are what the
  sigma-clipped statistic returns on the empty array of residuals. Wherever such a chip
  stands in \<open>imglist\<close>, it raises nothing when the chips before it raised nothing and
  include a reference chip.
\<close>

theorem reference_empty_no_match_rms:
  "(\<forall>d k g. extract_residuals stat imglist = Inr d \<longrightarrow> d k = Some g \<longrightarrow>
       g_type g = Some ''REFERENCE'' \<longrightarrow>
       g_x g = [] \<and> g_y g = [] \<and> g_ref_x g = [] \<and> g_ref_y g = []) \<and>
   (\<forall>d pre c post. extract_residuals stat imglist = Inr d \<longrightarrow> imglist = pre @ c # post \<longrightarrow>
       no_match_chip c \<longrightarrow> list_all (\<lambda>r. filename r \<noteq> filename c) post \<longrightarrow>
       (\<exists>g. d (KStr (filename c)) = Some g \<and> g_type g = Some ''IMAGE'' \<and>
            g_x g = [] \<and> g_y g = [] \<and> g_ref_x g = [] \<and> g_ref_y g = [] \<and>
            g_rms_x g = Some (stat []) \<and> g_rms_y g = Some (stat []))) \<and>
   (\<forall>pre c post s. imglist = pre @ c # post \<longrightarrow>
       extract_loop stat init_state pre = Inr s \<longrightarrow>
       list_ex (\<lambda>r. status r = ''REFERENCE'') pre \<longrightarrow> no_match_chip c \<longrightarrow>
       (\<exists>s'. extract_loop stat init_state (pre @ [c]) = Inr s'))"
proof (intro conjI allI impI)
  fix d k g
  assume res: "extract_residuals stat imglist = Inr d" and g: "d k = Some g"
    and ty: "g_type g = Some ''REFERENCE''"
  from res obtain s where s: "extract_loop stat init_state imglist = Inr s"
    and d: "d = group_dict s"
    by (auto simp: extract_residuals_def split: sum.splits)
  from extract_loop_inv [OF s str_keys_init fresh_init] have "fresh_unless_image s" by simp
  with g ty d have "g_x g = [] \<and> g_y g = [] \<and> g_ref_x g = [] \<and> g_ref_y g = []"
    by (simp add: fresh_unless_image_def)
  then show "g_x g = []" "g_y g = []" "g_ref_x g = []" "g_ref_y g = []" by simp_all
next
  fix d pre c post
  assume res: "extract_residuals stat imglist = Inr d" and split: "imglist = pre @ c # post"
    and nm: "no_match_chip c" and later: "list_all (\<lambda>r. filename r \<noteq> filename c) post"
  from res obtain sf where sf: "extract_loop stat init_state imglist = Inr sf"
    and d: "d = group_dict sf"
    by (auto simp: extract_residuals_def split: sum.splits)
  from sf split obtain s s1 where s: "extract_loop stat init_state pre = Inr s"
    and s1: "extract_step stat s c = Inr s1" and rest: "extract_loop stat s1 post = Inr sf"
    by (auto simp: extract_loop_append split: sum.splits)
  from extract_loop_inv [OF s str_keys_init fresh_init] have keys: "str_keys s" by simp
  from extract_step_str_keys [OF s1 keys] have keys1: "str_keys s1" .
  from extract_loop_other_groups [OF rest keys1 later] d
  have "d (KStr (filename c)) = group_dict s1 (KStr (filename c))" by simp
  with extract_step_no_match [OF nm keys s1]
  show "\<exists>g. d (KStr (filename c)) = Some g \<and> g_type g = Some ''IMAGE'' \<and>
            g_x g = [] \<and> g_y g = [] \<and> g_ref_x g = [] \<and> g_ref_y g = [] \<and>
            g_rms_x g = Some (stat []) \<and> g_rms_y g = Some (stat [])"
    by simp
next
  fix pre c post s
  assume s: "extract_loop stat init_state pre = Inr s"
    and seen: "list_ex (\<lambda>r. status r = ''REFERENCE'') pre"
    and nm: "no_match_chip c"
  from extract_loop_inv [OF s str_keys_init fresh_init] have keys: "str_keys s" by simp
  from ref_seen [OF s] seen obtain ra dec where
    bufs: "ref_ra s = NdArray ra" "ref_dec s = NdArray dec" by blast
  from extract_step_no_match_returns [OF nm keys bufs, of stat] obtain s1 where
    "extract_step stat s c = Inr s1" by blast
  with s show "\<exists>s'. extract_loop stat init_state (pre @ [c]) = Inr s'"
    by (simp add: extract_loop_append)
qed

text \<open>
  The theorem of claim C4 on the reference \<open>ref_A\<close> followed by \<open>img_nomatch\<close> and
  by a chip of another exposure; the statistic of astropy gives \<open>nan\<close>.
\<close>

theorem reference_empty_no_match_rms_witness:
  "extract_residuals sigma_clipped_std [ref_A, img_nomatch, img_C] =
     Inr (group_dict (state_after sigma_clipped_std [ref_A, img_nomatch, img_C])) \<and>
   map_option g_type
     (group_dict (state_after sigma_clipped_std [ref_A, img_nomatch, img_C]) (KStr ''a.fits'')) =
     Some (Some ''REFERENCE'') \<and>
   map_option g_x
     (group_dict (state_after sigma_clipped_std [ref_A, img_nomatch, img_C]) (KStr ''a.fits'')) =
     Some [] \<and>
   [ref_A, img_nomatch, img_C] = [ref_A] @ img_nomatch # [img_C] \<and>
   no_match_chip img_nomatch \<and>
   list_all (\<lambda>r. filename r \<noteq> filename img_nomatch) [img_C] \<and>
   (\<exists>g. group_dict (state_after sigma_clipped_std [ref_A, img_nomatch, img_C])
           (KStr (filename img_nomatch)) = Some g \<and>
        g_type g = Some ''IMAGE'' \<and>
        g_x g = [] \<and> g_y g = [] \<and> g_ref_x g = [] \<and> g_ref_y g = [] \<and>
        g_rms_x g = Some NaN \<and> g_rms_y g = Some NaN) \<and>
   extract_loop sigma_clipped_std init_state [ref_A] =
     Inr (state_after sigma_clipped_std [ref_A]) \<and>
   list_ex (\<lambda>r. status r = ''REFERENCE'') [ref_A] \<and>
   (\<exists>s'. extract_loop sigma_clipped_std init_state ([ref_A] @ [img_nomatch]) = Inr s')"
proof -
  let ?l = "[ref_A, img_nomatch, img_C]"
  let ?d = "group_dict (state_after sigma_clipped_std ?l)"
  have a1: "extract_residuals sigma_clipped_std ?l = Inr ?d"
    by (simp add: state_after_def engine_defs sample_defs upt_rec)
  have a2: "map_option g_type (?d (KStr ''a.fits'')) = Some (Some ''REFERENCE'')"
    by (simp add: state_after_def engine_defs sample_defs upt_rec)
  have b1: "?l = [ref_A] @ img_nomatch # [img_C]" by simp
  have b2: "no_match_chip img_nomatch"
    by (simp add: no_match_chip_def sample_defs bool_index_def)
  have b3: "list_all (\<lambda>r. filename r \<noteq> filename img_nomatch) [img_C]"
    by (simp add: sample_defs)
  have c1: "extract_loop sigma_clipped_std init_state [ref_A] =
     Inr (state_after sigma_clipped_std [ref_A])"
    by (simp add: state_after_def engine_defs sample_defs)
  have c2: "list_ex (\<lambda>r. status r = ''REFERENCE'') [ref_A]"
    by (simp add: sample_defs)
  have nan: "sigma_clipped_std [] = NaN" by (simp add: sigma_clipped_std_def)
  note both_parts = reference_empty_no_match_rms [of sigma_clipped_std ?l]
  from a2 obtain g where g: "?d (KStr ''a.fits'') = Some g"
    "g_type g = Some ''REFERENCE''" by auto
  with both_parts a1 have "g_x g = []" by blast
  with g have a3: "map_option g_x (?d (KStr ''a.fits'')) = Some []" by simp
  from both_parts a1 b1 b2 b3 have
    "\<exists>g. ?d (KStr (filename img_nomatch)) = Some g \<and>
        g_type g = Some ''IMAGE'' \<and>
        g_x g = [] \<and> g_y g = [] \<and> g_ref_x g = [] \<and> g_ref_y g = [] \<and>
        g_rms_x g = Some (sigma_clipped_std []) \<and> g_rms_y g = Some (sigma_clipped_std [])"
    by blast
  then have b4: "\<exists>g. ?d (KStr (filename img_nomatch)) = Some g \<and>
        g_type g = Some ''IMAGE'' \<and>
        g_x g = [] \<and> g_y g = [] \<and> g_ref_x g = [] \<and> g_ref_y g = [] \<and>
        g_rms_x g = Some NaN \<and> g_rms_y g = Some NaN"
    by (simp add: nan)
  from both_parts b1 c1 c2 b2 have
    c3: "\<exists>s'. extract_loop sigma_clipped_std init_state ([ref_A] @ [img_nomatch]) = Inr s'"
    by blast
  from a1 a2 a3 b1 b2 b3 b4 c1 c2 c3 show ?thesis by blast
qed

text \<open>
  Claim C4 as stated fails: for \<open>img_nomatch\<close>, which keeps no match, \<open>rms_x\<close> and
  \<open>rms_y\<close> are not null but \<open>nan\<close>, the value of the statistic on the empty
  array.
\<close>

theorem no_match_rms_is_not_null:
  "map_option g_rms_x
     (record_of (extract_residuals sigma_clipped_std [ref_A, img_nomatch]) ''b.fits'') =
     Some (Some NaN) \<and>
   map_option g_rms_y
     (record_of (extract_residuals sigma_clipped_std [ref_A, img_nomatch]) ''b.fits'') =
     Some (Some NaN)"
  by (simp add: record_of_def engine_defs sample_defs sigma_clipped_std_def)

text \<open>
  Both conditions of the amended claim are needed. A chip that keeps no match and is
  not preceded by a reference chip raises TypeError, from \<open>ref_ra[ref_indx]\<close> on a
  list; and a later chip of the same group that keeps matches replaces the record.
\<close>

lemma no_match_without_reference_raises:
  "extract_residuals stat [img_nomatch] = Inl TypeError"
  by (simp add: engine_defs sample_defs)

lemma later_chip_replaces_record:
  "map_option g_x (record_of (extract_residuals stat [ref_A, img_nomatch, img_B]) ''b.fits'') =
     Some [10.5, 10.501]"
  by (simp add: record_of_def engine_defs sample_defs upt_rec)

lemma get_tangent_positions_status:
  "get_tangent_positions (c\<lparr>status := st\<rparr>) = get_tangent_positions c"
  by (rule ext)+
    (simp add: get_tangent_positions_def Let_def cong: option.case_cong sum.case_cong)

lemma matched_positions_status:
  "matched_positions s (c\<lparr>status := st\<rparr>) = matched_positions s c"
  by (simp add: matched_positions_def get_tangent_positions_status
        cong: option.case_cong sum.case_cong)

lemma image_chip_status: "image_chip stat s (c\<lparr>status := st\<rparr>) = image_chip stat s c"
  by (simp add: image_chip_def matched_positions_status
        cong: option.case_cong sum.case_cong prod.case_cong)

lemma reference_chip_status: "reference_chip s (c\<lparr>status := st\<rparr>) = reference_chip s c"
  by (simp add: reference_chip_def cong: option.case_cong)

lemma init_group_status: "init_group s (c\<lparr>status := st\<rparr>) = init_group s c"
  by (simp add: init_group_def)

lemma extract_step_status:
  "(status c = ''REFERENCE'') = (st = ''REFERENCE'') \<Longrightarrow>
   extract_step stat s (c\<lparr>status := st\<rparr>) = extract_step stat s c"
  by (simp add: extract_step_def Let_def init_group_status image_chip_status
        reference_chip_status)

text \<open>
  Claim C5, as amended: the engine does not validate the fit status. It only compares
  it with \<open>REFERENCE\<close>: replacing the status of chips by any other values, where a
  status is \<open>REFERENCE\<close> after exactly when it was before, changes neither the records
  returned nor the exception raised.
\<close>

theorem status_only_compared_to_reference:
  assumes "list_all2 (\<lambda>c c'. c' = c\<lparr>status := status c'\<rparr> \<and>
              (status c = ''REFERENCE'') = (status c' = ''REFERENCE'')) cs cs'"
  shows "extract_residuals stat cs' = extract_residuals stat cs"
proof -
  from assms have "extract_loop stat s cs' = extract_loop stat s cs" for s
  proof (induction cs cs' arbitrary: s rule: list_all2_induct)
    case Nil
    show ?case by simp
  next
    case (Cons c cs c' cs')
    from Cons(1) have "extract_step stat s c' = extract_step stat s c"
      using extract_step_status [of c "status c'" stat s] by simp
    with Cons show ?case by (simp split: sum.splits)
  qed
  then show ?thesis by (simp add: extract_residuals_def)
qed

text \<open>
The theorem of claim C5 on \<open>img_B\<close> with the status \<open>BOGUS\<close>.
\<close>

theorem status_only_compared_to_reference_witness:
  "list_all2 (\<lambda>c c'. c' = c\<lparr>status := status c'\<rparr> \<and>
              (status c = ''REFERENCE'') = (status c' = ''REFERENCE''))
     [ref_A, img_B] [ref_A, img_B\<lparr>status := ''BOGUS''\<rparr>] \<and>
   extract_residuals sigma_clipped_std [ref_A, img_B\<lparr>status := ''BOGUS''\<rparr>] =
   extract_residuals sigma_clipped_std [ref_A, img_B]"
proof -
  have h: "list_all2 (\<lambda>c c'. c' = c\<lparr>status := status c'\<rparr> \<and>
              (status c = ''REFERENCE'') = (status c' = ''REFERENCE''))
     [ref_A, img_B] [ref_A, img_B\<lparr>status := ''BOGUS''\<rparr>]"
    by (simp add: sample_defs)
  from status_only_compared_to_reference [OF h] h show ?thesis by blast
qed

text \<open>
  Claim C5 as stated fails: a chip with the undocumented status \<open>BOGUS\<close> raises
  nothing and gives a record of type \<open>IMAGE\<close>.
\<close>

theorem unknown_status_processed_as_image:
  "map_option g_type
     (record_of (extract_residuals sigma_clipped_std [ref_A, img_B\<lparr>status := ''BOGUS''\<rparr>])
        ''b.fits'') = Some (Some ''IMAGE'')"
  by (simp add: record_of_def engine_defs sample_defs upt_rec)

text \<open>
  The scenario of two groups when group B is one chip: for a reference chip whose catalog
  maps to the world positions \<open>(10.0, 20.0)\<close> and \<open>(10.001, 20.001)\<close>, followed by
  a chip that is not a reference, whose fit reports the matched indices \<open>[0, 1]\<close> on
  both sides, the mask \<open>[True, True]\<close> and the shift \<open>(0.5, -0.3)\<close>, and which
  holds the two sources and the two fitted positions that these indices refer to, the
  engine returns a record for that chip of type \<open>IMAGE\<close> with \<open>xsh = 0.5\<close>,
  \<open>ysh = -0.3\<close>, the number of matches of the fit, and two entries in each of
  \<open>x\<close>, \<open>y\<close>, \<open>ref_x\<close> and \<open>ref_y\<close>.
\<close>

lemma scenario_one_chip_group:
  assumes "status a = ''REFERENCE''"
    and "map (\<lambda>(px, py). det_to_world a px py) (catalog a) = [(10, 20), (10.001, 20.001)]"
    and "status b \<noteq> ''REFERENCE''"
    and "fit b = Some fd"
    and "matched_input_idx fd = [0, 1]" and "matched_ref_idx fd = [0, 1]"
    and "fitmask fd = [True, True]" and "shift fd = (0.5, -0.3)"
    and "2 \<le> length (catalog b)" and "2 \<le> length (fit_RA fd)" and "2 \<le> length (fit_DEC fd)"
  shows "\<exists>d g. extract_residuals stat [a, b] = Inr d \<and> d (KStr (filename b)) = Some g \<and>
           g_type g = Some ''IMAGE'' \<and> g_xsh g = Some 0.5 \<and> g_ysh g = Some (-0.3) \<and>
           g_nmatches g = Some (nmatches fd) \<and>
           length (g_x g) = 2 \<and> length (g_y g) = 2 \<and>
           length (g_ref_x g) = 2 \<and> length (g_ref_y g) = 2"
  using assms
  by (auto simp: engine_defs Let_def upt_rec)

lemma scenario_one_chip_group_example:
  "status ref_A = ''REFERENCE'' \<and>
   map (\<lambda>(px, py). det_to_world ref_A px py) (catalog ref_A) = [(10, 20), (10.001, 20.001)] \<and>
   status img_B \<noteq> ''REFERENCE'' \<and> fit img_B = Some fit_B \<and>
   matched_input_idx fit_B = [0, 1] \<and> matched_ref_idx fit_B = [0, 1] \<and>
   fitmask fit_B = [True, True] \<and> shift fit_B = (0.5, -0.3) \<and>
   2 \<le> length (catalog img_B) \<and> 2 \<le> length (fit_RA fit_B) \<and> 2 \<le> length (fit_DEC fit_B) \<and>
   (\<exists>d g. extract_residuals sigma_clipped_std [ref_A, img_B] = Inr d \<and>
           d (KStr (filename img_B)) = Some g \<and>
           g_type g = Some ''IMAGE'' \<and> g_xsh g = Some 0.5 \<and> g_ysh g = Some (-0.3) \<and>
           g_nmatches g = Some (nmatches fit_B) \<and>
           length (g_x g) = 2 \<and> length (g_y g) = 2 \<and>
           length (g_ref_x g) = 2 \<and> length (g_ref_y g) = 2)"
proof -
  have h: "status ref_A = ''REFERENCE''"
    "map (\<lambda>(px, py). det_to_world ref_A px py) (catalog ref_A) = [(10, 20), (10.001, 20.001)]"
    "status img_B \<noteq> ''REFERENCE''" "fit img_B = Some fit_B"
    "matched_input_idx fit_B = [0, 1]" "matched_ref_idx fit_B = [0, 1]"
    "fitmask fit_B = [True, True]" "shift fit_B = (0.5, -0.3)"
    "2 \<le> length (catalog img_B)" "2 \<le> length (fit_RA fit_B)" "2 \<le> length (fit_DEC fit_B)"
    by (simp_all add: sample_defs)
  from scenario_one_chip_group [OF h, of sigma_clipped_std] h show ?thesis by blast
qed

text \<open>
  In the other order, the chip of group B before the reference, the code raises
  TypeError, from \<open>ref_ra[ref_indx]\<close> on a list.
\<close>

lemma image_before_reference_raises: "extract_residuals stat [img_B, ref_A] = Inl TypeError"
  by (simp add: engine_defs sample_defs upt_rec)

text \<open>
  Claim C9 says that for the two groups of the scenario the record of group B has
  exactly two entries in each of \<open>x\<close>, \<open>y\<close>, \<open>ref_x\<close> and \<open>ref_y\<close>. When
  group B is an exposure of two chips with one source each, the code returns one entry
  in each: the test of line 129 makes the second chip create the record anew and start
  again at the offset \<open>0\<close>, so that the record holds the first matched source,
  taken again by the second chip, and not the second.
\<close>

theorem two_chip_group_one_entry:
  "map_option positions_of
     (record_of (extract_residuals stat [ref_A, half_B1]) ''b.fits'') =
     Some ([10.5], [19.7], [10], [20]) \<and>
   map_option positions_of
     (record_of (extract_residuals stat [ref_A, half_B1, half_B2]) ''b.fits'') =
     Some ([10.5], [19.7], [10], [20])"
  by (simp add: record_of_def positions_of_def engine_defs sample_defs half_B1_def half_B2_def upt_rec)

section \<open>The guard of determine_alignment_residuals\<close>

lemma fold_max_le_sum: "fold max ns (n::nat) \<le> n + sum_list ns"
proof (induction ns arbitrary: n)
  case Nil
  show ?case by simp
next
  case (Cons a ns)
  have "fold max ns (max a n) \<le> max a n + sum_list ns" by (rule Cons.IH)
  also have "\<dots> \<le> n + (a + sum_list ns)" by simp
  finally show ?case by simp
qed

lemma py_max_le_sum: "py_max ns = Inr m \<Longrightarrow> m \<le> sum_list ns"
  using fold_max_le_sum by (cases ns) auto

text \<open>
  Claim C3, as amended: for every call with at least one input file, if fewer than 4
  sources are detected in all files together, the call returns \<open>None\<close> without
  attempting the match; and the match is attempted only when at least 4 sources were
  detected in all.
\<close>

theorem few_sources_returns_none:
  assumes "files \<noteq> []"
  shows "(sum_list (map (\<lambda>f. sum_list (map length (sources ext f))) files) < 4 \<longrightarrow>
            determine_alignment_residuals ext input files =
              \<lparr>match_attempted = False, returned = Inr None\<rparr>) \<and>
         (match_attempted (determine_alignment_residuals ext input files) \<longrightarrow>
            4 \<le> sum_list (map (\<lambda>f. sum_list (map length (sources ext f))) files))"
proof -
  let ?ns = "map (\<lambda>img_cats. sum_list (map length img_cats)) (map (sources ext) files)"
  have tot: "?ns = map (\<lambda>f. sum_list (map length (sources ext f))) files"
    by (simp add: comp_def)
  from assms obtain m where m: "py_max ?ns = Inr m"
    by (cases files) auto
  from py_max_le_sum [OF m] have le: "m \<le> sum_list ?ns" .
  show ?thesis
    using m le unfolding tot [symmetric]
    by (auto simp: determine_alignment_residuals_def Let_def split: sum.splits if_splits)
qed

text \<open>
  The theorem of claim C3 on one file with three sources, and on one file with four,
  for which the match is attempted.
\<close>

theorem few_sources_returns_none_witness:
  "[''j8c0d1bwq_flc.fits''] \<noteq> [] \<and>
   sum_list (map (\<lambda>f. sum_list (map length (sources few_sources f))) [''j8c0d1bwq_flc.fits'']) < 4 \<and>
   determine_alignment_residuals few_sources ''j8c0d1011'' [''j8c0d1bwq_flc.fits''] =
     \<lparr>match_attempted = False, returned = Inr None\<rparr> \<and>
   match_attempted
     (determine_alignment_residuals many_sources ''j8c0d1011'' [''j8c0d1bwq_flc.fits'']) \<and>
   4 \<le> sum_list (map (\<lambda>f. sum_list (map length (sources many_sources f)))
          [''j8c0d1bwq_flc.fits''])"
proof -
  have ne: "[''j8c0d1bwq_flc.fits''] \<noteq> []" by simp
  have few: "sum_list (map (\<lambda>f. sum_list (map length (sources few_sources f)))
               [''j8c0d1bwq_flc.fits'']) < 4"
    by (simp add: few_sources_def)
  have att: "match_attempted
     (determine_alignment_residuals many_sources ''j8c0d1011'' [''j8c0d1bwq_flc.fits''])"
    by (simp add: determine_alignment_residuals_def many_sources_def)
  from few_sources_returns_none [OF ne, of few_sources "''j8c0d1011''"]
    few_sources_returns_none [OF ne, of many_sources "''j8c0d1011''"] ne few att
  show ?thesis by blast
qed

text \<open>
  Claim C3 as stated fails on the empty list of files: no source is detected, and the
  call raises ValueError, from \<open>max\<close> of the empty list, instead of returning
  \<open>None\<close>.
\<close>

theorem no_files_raises:
  "determine_alignment_residuals few_sources ''j8c0d1011'' [] =
     \<lparr>match_attempted = False, returned = Inl ValueError\<rparr>"
  by (simp add: determine_alignment_residuals_def few_sources_def)

section \<open>compare_num_sources\<close>








section \<open>compare_photometry\<close>








lemmas table_defs = table_ops_def table_disk_def point_table_def segment_table_def
  good_flags_def gather_def table_rows_def table_rename_def








text \<open>
  Claim C6 says that a missing catalog of one product is logged and skips that product
  only, and that the other products of the batch are processed. The code logs the two
  warnings for the missing point catalog of \<open>f110w\<close> and then reads it: the call
  raises FileNotFoundError and writes no JSON file, also none for \<open>f160w\<close>, for which
  the call on its own writes one.
\<close>

theorem missing_catalog_raises:
  "compare_photometry table_ops
     [''hst_11665_06_wfc3_ir_f110w_ib4606_drz.fits'',
      ''hst_11665_06_wfc3_ir_f160w_ib4606_drz.fits''] =
   ([Warning (''Catalog hst_11665_06_wfc3_ir_f110w_ib4606_point-cat.ecsv does not exist.'' @
              ''  Both the Point and Segment catalogs must exist for comparison.''),
     Warning (''Program skipping comparison of catalogs associated with '' @
              ''hst_11665_06_wfc3_ir_f110w_ib4606_drz.fits.'' @ [CHR 0x0A])],
    [], Some FileNotFoundError) \<and>
   fst (snd (compare_photometry table_ops [''hst_11665_06_wfc3_ir_f160w_ib4606_drz.fits''])) =
   [(''ib4606_ir_svm_f160w_photometry.json'',
     \<lparr>sm_detector = ''ir'', sm_filter_name = ''f160w'',
      sm_stats = [stat_key ''MagAp1'' \<mapsto>
                    \<lparr>mean_difference = 2, standard_deviation = 1, median_difference = 2\<rparr>,
                  stat_key ''MagAp2'' \<mapsto>
                    \<lparr>mean_difference = 1, standard_deviation = 0, median_difference = 1\<rparr>]\<rparr>)]"
  by (simp add: photometry_product_def py_index_def cat_names_def cat_prefix_def
        load_catalogs_def ascii_read_def flag_values_mask_def phot_columns_def
        column_stats_def table_defs np_mean_def np_median_def np_std_def Let_def
        check_catalogs_def)

section \<open>compare_ra_dec_crossmatches\<close>

text \<open>
  Claim C8 says that, when the cross-matcher returns no matched index, the function
  reports the condition and ends without a JSON file and without an exception. For a
  point catalog with no rows the code raises ZeroDivisionError, in the message that
  gives the percentage of matched sources, before it reaches the test for no matches;
  the error message of that test is not logged.
\<close>

theorem empty_catalog_division_by_zero:
  "compare_ra_dec_crossmatches empty_point_ops filter_product =
     ([Listing ''Valid point data columns:   '' [], Listing ''Valid segment data columns: '' [],
       Info [CHR 0x0A], Info ''Data columns to be compared:'', Info [CHR 0x0A],
       Info ''Cross-matching results''],
      Inl ZeroDivisionError)"
  by (simp add: compare_ra_dec_crossmatches_def empty_point_ops_def filter_product_def
        py_fdiv_def Let_def)

text \<open>
  When both catalogs have rows and one of the two lists of matched indices is empty, the
  function ends with the error message and writes no JSON file.
\<close>

lemma no_matches_reported:
  assumes "slFiles2dataTables ops [point_cat_filename h, segment_cat_filename h] = Inr (p, s)"
    and "ra_len ops p = Inr n0" and "ra_len ops s = Inr n1" and "0 < n0" and "0 < n1"
    and "xmatch ops [point_cat_filename h, segment_cat_filename h]
           [drizzle_filename h, drizzle_filename h] [n0, n1] = (mr, mi)"
    and "mr = [] \<or> mi = []"
  shows "snd (compare_ra_dec_crossmatches ops h) = Inr None \<and>
         last (fst (compare_ra_dec_crossmatches ops h)) =
           Error (''*** No matching sources were found. Comparisons cannot be '' @
                  ''computed. No json file will be produced.***'')"
  using assms
  by (auto simp: compare_ra_dec_crossmatches_def py_fdiv_def Let_def)

end
